theory Spec2Isabelle
  imports Complex_Main
begin

section \<open>Data model\<close>

text \<open>
  The module \<^verbatim>\<open>rlgym_sim/utils/math.py\<close> works on numpy arrays of floats. The
  development below reads every float as a real number (exact arithmetic):
  a vector of the vector kernel is a list of reals, a quaternion is the
  4-array \<^verbatim>\<open>(w, x, y, z)\<close>, an Euler triple is a 3-array and a rotation matrix
  is a 3 by 3 grid given by its rows, so that the component \<^verbatim>\<open>m[i, j]\<close> of the
  source is the variable \<open>mij\<close> of the model.

  What the real numbers do not have is modelled as an error value: a division
  by zero, the square root of a negative number (a NaN in the source) and a
  dot product or a difference of arrays whose shapes do not fit.
\<close>

datatype error = ZeroDivisionError | NotANumber | ValueError

type_synonym vec = "real list"
type_synonym vec3 = "real \<times> real \<times> real"
type_synonym quat = "real \<times> real \<times> real \<times> real"
type_synonym mat3 = "vec3 \<times> vec3 \<times> vec3"

definition bind_result :: "error + 'a \<Rightarrow> ('a \<Rightarrow> error + 'b) \<Rightarrow> error + 'b" where
  "bind_result r f = (case r of Inl e \<Rightarrow> Inl e | Inr v \<Rightarrow> f v)"

text \<open>The scalar division \<^verbatim>\<open>a / b\<close>: dividing by zero is an error.\<close>

definition float_div :: "real \<Rightarrow> real \<Rightarrow> error + real" where
  "float_div a b = (if b = 0 then Inl ZeroDivisionError else Inr (a / b))"

text \<open>The square roots \<^verbatim>\<open>a ** 0.5\<close> and \<^verbatim>\<open>np.sqrt(a)\<close>: no real result below zero.\<close>

definition float_sqrt :: "real \<Rightarrow> error + real" where
  "float_sqrt a = (if a < 0 then Inl NotANumber else Inr (sqrt a))"

text \<open>Unary minus on a 4-array, as in \<^verbatim>\<open>return -q\<close>.\<close>

fun quat_neg :: "quat \<Rightarrow> quat" where
  "quat_neg (w, x, y, z) = (- w, - x, - y, - z)"

text \<open>
  A list of four integers, and the conversion of a float stored into a cell of
  such a list: under \<^verbatim>\<open>@jit(nopython=True)\<close> a list that starts as
  \<^verbatim>\<open>[0, 0, 0, 0]\<close> is a list of 64-bit integers, and a float assigned to one of
  its cells is truncated toward zero. The integers of the model are unbounded;
  the components of the quaternion of a rotation lie between \<open>-1\<close> and \<open>1\<close>.
\<close>

type_synonym int_quat = "int \<times> int \<times> int \<times> int"

definition float_to_int :: "real \<Rightarrow> int" where
  "float_to_int a = (if 0 \<le> a then \<lfloor>a\<rfloor> else \<lceil>a\<rceil>)"

text \<open>An integer list read as a quaternion, to compare it with an array of floats.\<close>

fun quat_of_ints :: "int_quat \<Rightarrow> quat" where
  "quat_of_ints (a, b, c, d) = (of_int a, of_int b, of_int c, of_int d)"

text \<open>\<^verbatim>\<open>np.dot\<close> on two 4-arrays.\<close>

fun quat_dot :: "quat \<Rightarrow> quat \<Rightarrow> real" where
  "quat_dot (a0, a1, a2, a3) (b0, b1, b2, b3) = a0 * b0 + a1 * b1 + a2 * b2 + a3 * b3"

text \<open>\<^verbatim>\<open>np.zeros((3, 3))\<close>.\<close>

definition zeros33 :: mat3 where
  "zeros33 = ((0, 0, 0), (0, 0, 0), (0, 0, 0))"

section \<open>Vector kernel\<close>

text \<open>
  \<^verbatim>\<open>np.dot\<close> on two 1-d arrays: the sum of the products, and a
  \<^verbatim>\<open>ValueError\<close> when the lengths differ.
\<close>

definition np_dot :: "vec \<Rightarrow> vec \<Rightarrow> error + real" where
  "np_dot a b =
    (if length a = length b then Inr (sum_list (map2 (*) a b)) else Inl ValueError)"

text \<open>
  \<^verbatim>\<open>np.subtract\<close> on two 1-d arrays: element-wise, an array of length one is
  broadcast, and other lengths that differ are a \<^verbatim>\<open>ValueError\<close>.
\<close>

definition np_subtract :: "vec \<Rightarrow> vec \<Rightarrow> error + vec" where
  "np_subtract x y =
    (if length x = length y then Inr (map2 (-) x y)
     else if length x = 1 then Inr (map (\<lambda>c. hd x - c) y)
     else if length y = 1 then Inr (map (\<lambda>c. c - hd y) x)
     else Inl ValueError)"

text \<open>\<^verbatim>\<open>np.linalg.norm\<close> on a 1-d array: the Euclidean norm.\<close>

definition np_linalg_norm :: "vec \<Rightarrow> real" where
  "np_linalg_norm v = sqrt (sum_list (map (\<lambda>c. c * c) v))"

definition get_dist :: "vec \<Rightarrow> vec \<Rightarrow> error + vec" where
  "get_dist x y = np_subtract x y"

definition vecdot :: "vec \<Rightarrow> vec \<Rightarrow> error + real" where
  "vecdot a b = np_dot a b"

definition vecmag :: "vec \<Rightarrow> real" where
  "vecmag v = (let norm = np_linalg_norm v in norm)"

definition squared_vecmag :: "vec \<Rightarrow> real" where
  "squared_vecmag v = (let x = np_linalg_norm v in x * x)"

text \<open>
  \<^verbatim>\<open>vector_projection(vec, dest_vec, mag_squared=None)\<close>. The first two
  lines of the body either return \<^verbatim>\<open>dest_vec\<close> at once (\<open>None\<close> below) or fix the
  value of \<^verbatim>\<open>mag_squared\<close> that the rest of the body uses. The division
  \<^verbatim>\<open>np.divide(dot, mag_squared)\<close> is reached only with a divisor that is not zero.
\<close>

definition vector_projection :: "vec \<Rightarrow> vec \<Rightarrow> real option \<Rightarrow> error + vec" where
  "vector_projection v dest_vec mag_squared =
    (let mag_squared' =
       (case mag_squared of
          None \<Rightarrow> (let norm = vecmag dest_vec in if norm = 0 then None else Some (norm * norm))
        | Some ms \<Rightarrow> Some ms)
     in case mag_squared' of
          None \<Rightarrow> Inr dest_vec
        | Some ms \<Rightarrow>
            if ms = 0 then Inr dest_vec
            else bind_result (np_dot v dest_vec) (\<lambda>dot.
                   bind_result (float_div dot ms) (\<lambda>c.
                     Inr (map (\<lambda>d. c * d) dest_vec))))"

definition scalar_projection :: "vec \<Rightarrow> vec \<Rightarrow> error + real" where
  "scalar_projection v dest_vec =
    (let norm = vecmag dest_vec
     in if norm = 0 then Inr 0
        else bind_result (np_dot v dest_vec) (\<lambda>d. float_div d norm))"

section \<open>Orientation kernel\<close>

subsection \<open>\<^verbatim>\<open>quat_to_rot_mtx\<close>\<close>

text \<open>
  The source negates the four components, starts from the zero matrix and
  fills it only when \<^verbatim>\<open>norm = np.dot(quat, quat)\<close> is not zero, with
  \<^verbatim>\<open>s = 1.0 / norm\<close>.
\<close>

fun quat_to_rot_mtx :: "quat \<Rightarrow> error + mat3" where
  "quat_to_rot_mtx (q0, q1, q2, q3) =
    (let w = - q0; x = - q1; y = - q2; z = - q3;
         theta = zeros33;
         norm = quat_dot (q0, q1, q2, q3) (q0, q1, q2, q3)
     in if norm \<noteq> 0 then
          bind_result (float_div 1 norm) (\<lambda>s.
            Inr ((1 - 2 * s * (y * y + z * z), 2 * s * (x * y - z * w), 2 * s * (x * z + y * w)),
                 (2 * s * (x * y + z * w), 1 - 2 * s * (x * x + z * z), 2 * s * (y * z - x * w)),
                 (2 * s * (x * z - y * w), 2 * s * (y * z + x * w), 1 - 2 * s * (x * x + y * y))))
        else Inr theta)"

subsection \<open>\<^verbatim>\<open>quat_to_euler\<close>\<close>

text \<open>
  \<^verbatim>\<open>np.arctan2(y, x)\<close>: the angle of the point \<open>(x, y)\<close> in \<open>(-\<pi>, \<pi>]\<close>, and \<open>0\<close> at
  the origin (the reals have no signed zero).
\<close>

definition arctan2 :: "real \<Rightarrow> real \<Rightarrow> real" where
  "arctan2 y x =
    (if 0 < x then arctan (y / x)
     else if x < 0 then (if 0 \<le> y then arctan (y / x) + pi else arctan (y / x) - pi)
     else if 0 < y then pi / 2
     else if y < 0 then - (pi / 2)
     else 0)"

fun quat_to_euler :: "quat \<Rightarrow> vec3" where
  "quat_to_euler (w, x, y, z) =
    (let sinr_cosp = 2 * (w * x + y * z);
         cosr_cosp = 1 - 2 * (x * x + y * y);
         sinp = 2 * (w * y - z * x);
         siny_cosp = 2 * (w * z + x * y);
         cosy_cosp = 1 - 2 * (y * y + z * z);
         roll = arctan2 sinr_cosp cosr_cosp;
         pitch = (if \<bar>sinp\<bar> > 1 then pi / 2 else arcsin sinp);
         yaw = arctan2 siny_cosp cosy_cosp
     in (- pitch, yaw, - roll))"

subsection \<open>\<^verbatim>\<open>rotation_to_quaternion\<close>\<close>

text \<open>
  The components are listed in the order \<^verbatim>\<open>q[0], q[1], q[2], q[3]\<close>; the source
  returns \<^verbatim>\<open>-q\<close>. Each path takes one square root and divides once, by that
  root.
\<close>

fun rotation_to_quaternion :: "mat3 \<Rightarrow> error + quat" where
  "rotation_to_quaternion ((m00, m01, m02), (m10, m11, m12), (m20, m21, m22)) =
    (let trace = m00 + m11 + m22
     in if trace > 0 then
          bind_result (float_sqrt (trace + 1)) (\<lambda>s.
            let q0 = s * 0.5
            in bind_result (float_div 0.5 s) (\<lambda>s.
                 Inr (quat_neg (q0, (m21 - m12) * s, (m02 - m20) * s, (m10 - m01) * s))))
        else if m00 \<ge> m11 \<and> m00 \<ge> m22 then
          bind_result (float_sqrt (1 + m00 - m11 - m22)) (\<lambda>s.
            bind_result (float_div 0.5 s) (\<lambda>inv_s.
              Inr (quat_neg ((m21 - m12) * inv_s, 0.5 * s,
                             (m10 + m01) * inv_s, (m20 + m02) * inv_s))))
        else if m11 > m22 then
          bind_result (float_sqrt (1 + m11 - m00 - m22)) (\<lambda>s.
            bind_result (float_div 0.5 s) (\<lambda>inv_s.
              Inr (quat_neg ((m02 - m20) * inv_s, (m01 + m10) * inv_s,
                             0.5 * s, (m12 + m21) * inv_s))))
        else
          bind_result (float_sqrt (1 + m22 - m00 - m11)) (\<lambda>s.
            bind_result (float_div 0.5 s) (\<lambda>inv_s.
              Inr (quat_neg ((m10 - m01) * inv_s, (m02 + m20) * inv_s,
                             (m12 + m21) * inv_s, 0.5 * s)))))"

subsection \<open>\<^verbatim>\<open>other_rot_to_quat\<close>\<close>

text \<open>
  The legacy conversion: the comparisons of the diagonal are strict, the
  scalings are \<^verbatim>\<open>0.25 / s\<close> and \<^verbatim>\<open>2.0 * np.sqrt(...)\<close>, each component is
  divided by \<^verbatim>\<open>s\<close>, and the result is not negated. The result list is
  \<^verbatim>\<open>q = [0, 0, 0, 0]\<close>, a list of integers: each assignment \<^verbatim>\<open>q[i] = ...\<close>
  stores the truncated value, and the list of integers is returned.
\<close>

fun other_rot_to_quat :: "mat3 \<Rightarrow> error + int_quat" where
  "other_rot_to_quat ((a00, a01, a02), (a10, a11, a12), (a20, a21, a22)) =
    (let trace = a00 + a11 + a22
     in if trace > 0 then
          bind_result (float_sqrt (trace + 1)) (\<lambda>r.
            bind_result (float_div 0.5 r) (\<lambda>s.
              bind_result (float_div 0.25 s) (\<lambda>q0.
                Inr (float_to_int q0, float_to_int ((a21 - a12) * s),
                     float_to_int ((a02 - a20) * s), float_to_int ((a10 - a01) * s)))))
        else if a00 > a11 \<and> a00 > a22 then
          bind_result (float_sqrt (1 + a00 - a11 - a22)) (\<lambda>r.
            let s = 2 * r
            in bind_result (float_div (a21 - a12) s) (\<lambda>q0.
                 bind_result (float_div (a01 + a10) s) (\<lambda>q2.
                   bind_result (float_div (a02 + a20) s) (\<lambda>q3.
                     Inr (float_to_int q0, float_to_int (0.25 * s),
                          float_to_int q2, float_to_int q3)))))
        else if a11 > a22 then
          bind_result (float_sqrt (1 + a11 - a00 - a22)) (\<lambda>r.
            let s = 2 * r
            in bind_result (float_div (a02 - a20) s) (\<lambda>q0.
                 bind_result (float_div (a01 + a10) s) (\<lambda>q1.
                   bind_result (float_div (a12 + a21) s) (\<lambda>q3.
                     Inr (float_to_int q0, float_to_int q1,
                          float_to_int (0.25 * s), float_to_int q3)))))
        else
          bind_result (float_sqrt (1 + a22 - a00 - a11)) (\<lambda>r.
            let s = 2 * r
            in bind_result (float_div (a10 - a01) s) (\<lambda>q0.
                 bind_result (float_div (a02 + a20) s) (\<lambda>q1.
                   bind_result (float_div (a12 + a21) s) (\<lambda>q2.
                     Inr (float_to_int q0, float_to_int q1,
                          float_to_int q2, float_to_int (0.25 * s)))))))"

section \<open>Notions of the specification\<close>

text \<open>
  A rotation matrix: the three columns (front, left and up) are orthonormal
  and the determinant is \<open>1\<close>.
\<close>

fun is_rotation :: "mat3 \<Rightarrow> bool" where
  "is_rotation ((m00, m01, m02), (m10, m11, m12), (m20, m21, m22)) \<longleftrightarrow>
     m00 * m00 + m10 * m10 + m20 * m20 = 1 \<and>
     m01 * m01 + m11 * m11 + m21 * m21 = 1 \<and>
     m02 * m02 + m12 * m12 + m22 * m22 = 1 \<and>
     m00 * m01 + m10 * m11 + m20 * m21 = 0 \<and>
     m00 * m02 + m10 * m12 + m20 * m22 = 0 \<and>
     m01 * m02 + m11 * m12 + m21 * m22 = 0 \<and>
     m00 * (m11 * m22 - m12 * m21) - m01 * (m10 * m22 - m12 * m20)
       + m02 * (m10 * m21 - m11 * m20) = 1"

text \<open>The norm of a quaternion; a unit quaternion has norm \<open>1\<close>.\<close>

definition quat_norm :: "quat \<Rightarrow> real" where
  "quat_norm q = sqrt (quat_dot q q)"

section \<open>Properties\<close>

subsection \<open>The error values\<close>

lemma float_sqrt_pos: "0 < a \<Longrightarrow> float_sqrt a = Inr (sqrt a)"
  by (simp add: float_sqrt_def)

lemma float_div_nz: "b \<noteq> 0 \<Longrightarrow> float_div a b = Inr (a / b)"
  by (simp add: float_div_def)

lemma bind_result_Inr: "bind_result (Inr v) f = f v"
  by (simp add: bind_result_def)

lemma quat_neg_neg: "quat_neg (quat_neg q) = q"
  by (cases q) simp

subsection \<open>Projections\<close>

lemma np_linalg_norm_replicate: "np_linalg_norm (replicate n 0) = 0"
  by (induction n) (simp_all add: np_linalg_norm_def)

text \<open>
  C7. Projecting any vector \<open>v\<close>, of any length, onto a zero vector:
  \<^verbatim>\<open>vector_projection(v, z)\<close> returns \<open>z\<close> itself and \<^verbatim>\<open>scalar_projection(v, z)\<close>
  returns \<open>0\<close>; both return before the dot product is taken, so neither raises.
\<close>

theorem projection_onto_zero:
  "vector_projection v (replicate n 0) None = Inr (replicate n 0) \<and>
   scalar_projection v (replicate n 0) = Inr 0"
  by (simp add: vector_projection_def scalar_projection_def vecmag_def np_linalg_norm_replicate)

lemma sum_list_squares_nonneg: "0 \<le> sum_list (map (\<lambda>c. c * c) (v::real list))"
  by (induction v) simp_all

lemma np_linalg_norm_squared:
  "np_linalg_norm v * np_linalg_norm v = sum_list (map (\<lambda>c. c * c) v)"
  by (simp add: np_linalg_norm_def sum_list_squares_nonneg)

lemma dot_of_residual:
  "length v = length d \<Longrightarrow>
   sum_list (map2 (*) (map2 (-) v (map (\<lambda>x. c * x) d)) d) =
   sum_list (map2 (*) v d) - (c::real) * sum_list (map (\<lambda>x. x * x) d)"
  by (induction v d rule: list_induct2) (simp_all add: algebra_simps)

text \<open>
  C8. For 3-component vectors \<open>v\<close> and \<open>onto\<close>, with \<open>onto\<close> of nonzero
  magnitude and no precomputed squared magnitude, the projection is computed,
  the difference \<open>v - projection\<close> is computed, and its dot product with \<open>onto\<close>
  is \<open>0\<close>.
\<close>

theorem projection_residual_orthogonal:
  assumes "length v = 3" "length onto = 3" "vecmag onto \<noteq> 0"
  shows "\<exists>p r. vector_projection v onto None = Inr p \<and> get_dist v p = Inr r \<and>
           vecdot r onto = Inr 0"
proof -
  let ?n = "np_linalg_norm onto"
  let ?d = "sum_list (map2 (*) v onto)"
  let ?c = "?d / (?n * ?n)"
  let ?p = "map (\<lambda>x. ?c * x) onto"
  from assms have n: "?n \<noteq> 0" by (simp add: vecmag_def)
  have p: "vector_projection v onto None = Inr ?p"
    using assms n
    by (simp add: vector_projection_def Let_def vecmag_def np_dot_def bind_result_def float_div_def)
  have r: "get_dist v ?p = Inr (map2 (-) v ?p)"
    using assms by (simp add: get_dist_def np_subtract_def)
  have "sum_list (map2 (*) (map2 (-) v ?p) onto) = ?d - ?c * sum_list (map (\<lambda>x. x * x) onto)"
    using assms by (intro dot_of_residual) simp
  also have "\<dots> = 0" using n by (simp add: np_linalg_norm_squared [symmetric])
  finally have "vecdot (map2 (-) v ?p) onto = Inr 0"
    using assms by (simp add: vecdot_def np_dot_def)
  with p r show ?thesis by blast
qed

theorem projection_residual_orthogonal_witness:
  "\<exists>p r. vector_projection [1, 2, 3] [0, 2, 0] None = Inr p \<and> get_dist [1, 2, 3] p = Inr r \<and>
           vecdot r [0, 2, 0] = Inr 0"
  using projection_residual_orthogonal [of "[1, 2, 3]" "[0, 2, 0]"]
  by (simp add: vecmag_def np_linalg_norm_def)

subsection \<open>Quaternion to Euler angles\<close>

text \<open>
  The roll, the yaw and the order and signs of the result are as the
  specification has them; the pitch is \<open>\<pi>/2\<close> whenever the magnitude of
  \<open>sinp\<close> exceeds \<open>1\<close>, whatever its sign.
\<close>

lemma quat_to_euler_components:
  "quat_to_euler (w, x, y, z) =
    (- (if \<bar>2 * (w * y - z * x)\<bar> > 1 then pi / 2 else arcsin (2 * (w * y - z * x))),
     arctan2 (2 * (w * z + x * y)) (1 - 2 * (y * y + z * z)),
     - arctan2 (2 * (w * x + y * z)) (1 - 2 * (x * x + y * y)))"
  by (simp add: Let_def)

text \<open>
  C2. At the quaternion \<open>(1, 0, -1, 0)\<close> the argument \<open>2 * (w * y - z * x)\<close> of
  the arcsine is \<open>-2\<close>, below \<open>-1\<close>. The source takes the pitch \<open>\<pi>/2\<close> there, not
  \<open>-\<pi>/2\<close>, so that the first component of the result, the negated pitch, is
  \<open>-\<pi>/2\<close>.
\<close>

theorem quat_to_euler_below_minus_one:
  "2 * (1 * (- 1) - 0 * 0) < (- 1 :: real) \<and>
   quat_to_euler (1, 0, - 1, 0) = (- (pi / 2), pi, - pi)"
  by (simp add: arctan2_def)

subsection \<open>Quaternion to rotation matrix\<close>

text \<open>
  C5. The identity quaternion \<open>(1, 0, 0, 0)\<close> is mapped to the identity
  matrix: the front column is \<open>(1, 0, 0)\<close>, the left column \<open>(0, 1, 0)\<close> and the up
  column \<open>(0, 0, 1)\<close>; the result is not the zero matrix.
\<close>

theorem quat_to_rot_mtx_identity:
  "quat_to_rot_mtx (1, 0, 0, 0) = Inr ((1, 0, 0), (0, 1, 0), (0, 0, 1)) \<and>
   quat_to_rot_mtx (1, 0, 0, 0) \<noteq> Inr zeros33"
  by (simp add: bind_result_def float_div_def zeros33_def)

text \<open>
  C9. Negating all four components of the input leaves the result of
  \<^verbatim>\<open>quat_to_rot_mtx\<close> unchanged, for every quaternion, unit or not, zero or not.
\<close>

theorem quat_to_rot_mtx_neg:
  "quat_to_rot_mtx (quat_neg q) = quat_to_rot_mtx q"
  by (cases q) (simp add: Let_def bind_result_def float_div_def)

lemma quat_to_rot_mtx_nonzero:
  assumes "quat_dot (q0, q1, q2, q3) (q0, q1, q2, q3) \<noteq> 0"
  shows "quat_to_rot_mtx (q0, q1, q2, q3) =
    (let w = - q0; x = - q1; y = - q2; z = - q3;
         s = 1 / quat_dot (q0, q1, q2, q3) (q0, q1, q2, q3)
     in Inr ((1 - 2 * s * (y * y + z * z), 2 * s * (x * y - z * w), 2 * s * (x * z + y * w)),
             (2 * s * (x * y + z * w), 1 - 2 * s * (x * x + z * z), 2 * s * (y * z - x * w)),
             (2 * s * (x * z - y * w), 2 * s * (y * z + x * w), 1 - 2 * s * (x * x + y * y))))"
  using assms by (simp add: Let_def bind_result_def float_div_def)

lemma scaled_entries_rotation:
  fixes w x y z s :: real
  assumes "s * (w * w + x * x + y * y + z * z) = 1"
  shows "is_rotation
     ((1 - 2 * s * (y * y + z * z), 2 * s * (x * y - z * w), 2 * s * (x * z + y * w)),
      (2 * s * (x * y + z * w), 1 - 2 * s * (x * x + z * z), 2 * s * (y * z - x * w)),
      (2 * s * (x * z - y * w), 2 * s * (y * z + x * w), 1 - 2 * s * (x * x + y * y)))"
  unfolding is_rotation.simps
proof (intro conjI)
  show "(1 - 2 * s * (y * y + z * z)) * (1 - 2 * s * (y * y + z * z)) +
        2 * s * (x * y + z * w) * (2 * s * (x * y + z * w)) +
        2 * s * (x * z - y * w) * (2 * s * (x * z - y * w)) = 1"
    using assms by algebra
  show "2 * s * (x * y - z * w) * (2 * s * (x * y - z * w)) +
        (1 - 2 * s * (x * x + z * z)) * (1 - 2 * s * (x * x + z * z)) +
        2 * s * (y * z + x * w) * (2 * s * (y * z + x * w)) = 1"
    using assms by algebra
  show "2 * s * (x * z + y * w) * (2 * s * (x * z + y * w)) +
        2 * s * (y * z - x * w) * (2 * s * (y * z - x * w)) +
        (1 - 2 * s * (x * x + y * y)) * (1 - 2 * s * (x * x + y * y)) = 1"
    using assms by algebra
  show "(1 - 2 * s * (y * y + z * z)) * (2 * s * (x * y - z * w)) +
        2 * s * (x * y + z * w) * (1 - 2 * s * (x * x + z * z)) +
        2 * s * (x * z - y * w) * (2 * s * (y * z + x * w)) = 0"
    using assms by algebra
  show "(1 - 2 * s * (y * y + z * z)) * (2 * s * (x * z + y * w)) +
        2 * s * (x * y + z * w) * (2 * s * (y * z - x * w)) +
        2 * s * (x * z - y * w) * (1 - 2 * s * (x * x + y * y)) = 0"
    using assms by algebra
  show "2 * s * (x * y - z * w) * (2 * s * (x * z + y * w)) +
        (1 - 2 * s * (x * x + z * z)) * (2 * s * (y * z - x * w)) +
        2 * s * (y * z + x * w) * (1 - 2 * s * (x * x + y * y)) = 0"
    using assms by algebra
  show "(1 - 2 * s * (y * y + z * z)) *
          ((1 - 2 * s * (x * x + z * z)) * (1 - 2 * s * (x * x + y * y)) -
           2 * s * (y * z - x * w) * (2 * s * (y * z + x * w))) -
        2 * s * (x * y - z * w) *
          (2 * s * (x * y + z * w) * (1 - 2 * s * (x * x + y * y)) -
           2 * s * (y * z - x * w) * (2 * s * (x * z - y * w))) +
        2 * s * (x * z + y * w) *
          (2 * s * (x * y + z * w) * (2 * s * (y * z + x * w)) -
           (1 - 2 * s * (x * x + z * z)) * (2 * s * (x * z - y * w))) = 1"
    using assms by algebra
qed

lemma quat_to_rot_mtx_is_rotation:
  assumes "quat_dot (q0, q1, q2, q3) (q0, q1, q2, q3) \<noteq> 0"
  shows "\<exists>m. quat_to_rot_mtx (q0, q1, q2, q3) = Inr m \<and> is_rotation m"
proof -
  let ?s = "1 / quat_dot (q0, q1, q2, q3) (q0, q1, q2, q3)"
  have "?s * ((- q0) * (- q0) + (- q1) * (- q1) + (- q2) * (- q2) + (- q3) * (- q3)) = 1"
    using assms by simp
  from scaled_entries_rotation [OF this] show ?thesis
    unfolding quat_to_rot_mtx_nonzero [OF assms] Let_def by blast
qed

text \<open>
  C10. For every quaternion whose squared norm is not zero, unit or not,
  \<^verbatim>\<open>quat_to_rot_mtx\<close> returns a proper rotation matrix: the columns are
  pairwise orthogonal unit vectors and the determinant is \<open>1\<close>.
\<close>

theorem quat_to_rot_mtx_rotation:
  assumes "quat_dot q q \<noteq> 0"
  shows "\<exists>m. quat_to_rot_mtx q = Inr m \<and> is_rotation m"
proof -
  obtain q0 q1 q2 q3 where q: "q = (q0, q1, q2, q3)" by (metis prod_cases4)
  from assms show ?thesis unfolding q by (rule quat_to_rot_mtx_is_rotation)
qed

theorem quat_to_rot_mtx_rotation_witness:
  "quat_dot (1, 2, 3, 4) (1, 2, 3, 4) \<noteq> 0 \<and>
   (\<exists>m. quat_to_rot_mtx (1, 2, 3, 4) = Inr m \<and> is_rotation m)"
proof -
  have h: "quat_dot (1, 2, 3, 4) (1, 2, 3, 4) \<noteq> 0" by simp
  from h quat_to_rot_mtx_rotation [OF h] show ?thesis by (rule conjI)
qed

lemma zeros33_not_rotation: "\<not> is_rotation zeros33"
  by (simp add: zeros33_def)

lemma quat_dot_self_zero:
  "quat_dot (q0, q1, q2, q3) (q0, q1, q2, q3) = 0 \<longleftrightarrow> (q0, q1, q2, q3) = (0, 0, 0, 0)"
  by (simp add: add_nonneg_eq_0_iff)

text \<open>
  C6. \<^verbatim>\<open>quat_to_rot_mtx\<close> never raises. At the zero quaternion it returns the
  zero matrix; it returns the zero matrix exactly when the squared norm
  \<^verbatim>\<open>np.dot(quat, quat)\<close> is zero, which over the reals is the zero quaternion
  alone; and when the squared norm is not zero it returns the matrix built
  from the negated components with the scale \<open>1 / (squared norm)\<close>.
\<close>

theorem quat_to_rot_mtx_degenerate:
  "quat_to_rot_mtx (0, 0, 0, 0) = Inr zeros33 \<and>
   (quat_to_rot_mtx (q0, q1, q2, q3) = Inr zeros33 \<longleftrightarrow>
      quat_dot (q0, q1, q2, q3) (q0, q1, q2, q3) = 0) \<and>
   (quat_dot (q0, q1, q2, q3) (q0, q1, q2, q3) = 0 \<longleftrightarrow> (q0, q1, q2, q3) = (0, 0, 0, 0)) \<and>
   (quat_dot (q0, q1, q2, q3) (q0, q1, q2, q3) \<noteq> 0 \<longrightarrow>
      quat_to_rot_mtx (q0, q1, q2, q3) =
        (let w = - q0; x = - q1; y = - q2; z = - q3;
             s = 1 / quat_dot (q0, q1, q2, q3) (q0, q1, q2, q3)
         in Inr ((1 - 2 * s * (y * y + z * z), 2 * s * (x * y - z * w), 2 * s * (x * z + y * w)),
                 (2 * s * (x * y + z * w), 1 - 2 * s * (x * x + z * z), 2 * s * (y * z - x * w)),
                 (2 * s * (x * z - y * w), 2 * s * (y * z + x * w),
                  1 - 2 * s * (x * x + y * y)))))"
proof (intro conjI impI)
  show "quat_to_rot_mtx (0, 0, 0, 0) = Inr zeros33" by simp
  show "quat_to_rot_mtx (q0, q1, q2, q3) = Inr zeros33 \<longleftrightarrow>
      quat_dot (q0, q1, q2, q3) (q0, q1, q2, q3) = 0"
  proof
    assume z: "quat_to_rot_mtx (q0, q1, q2, q3) = Inr zeros33"
    show "quat_dot (q0, q1, q2, q3) (q0, q1, q2, q3) = 0"
    proof (rule ccontr)
      assume "quat_dot (q0, q1, q2, q3) (q0, q1, q2, q3) \<noteq> 0"
      from quat_to_rot_mtx_is_rotation [OF this] obtain m
        where m: "quat_to_rot_mtx (q0, q1, q2, q3) = Inr m" "is_rotation m" by blast
      from m(1) z have "m = zeros33" by (simp only: sum.inject)
      with m(2) zeros33_not_rotation show False by blast
    qed
  next
    assume "quat_dot (q0, q1, q2, q3) (q0, q1, q2, q3) = 0"
    then show "quat_to_rot_mtx (q0, q1, q2, q3) = Inr zeros33" by (simp add: Let_def)
  qed
  show "quat_dot (q0, q1, q2, q3) (q0, q1, q2, q3) = 0 \<longleftrightarrow> (q0, q1, q2, q3) = (0, 0, 0, 0)"
    by (rule quat_dot_self_zero)
next
  assume "quat_dot (q0, q1, q2, q3) (q0, q1, q2, q3) \<noteq> 0"
  then show "quat_to_rot_mtx (q0, q1, q2, q3) =
        (let w = - q0; x = - q1; y = - q2; z = - q3;
             s = 1 / quat_dot (q0, q1, q2, q3) (q0, q1, q2, q3)
         in Inr ((1 - 2 * s * (y * y + z * z), 2 * s * (x * y - z * w), 2 * s * (x * z + y * w)),
                 (2 * s * (x * y + z * w), 1 - 2 * s * (x * x + z * z), 2 * s * (y * z - x * w)),
                 (2 * s * (x * z - y * w), 2 * s * (y * z + x * w),
                  1 - 2 * s * (x * x + y * y))))"
    by (rule quat_to_rot_mtx_nonzero)
qed

theorem quat_to_rot_mtx_degenerate_witness:
  "quat_dot (0, 0, 2, 0) (0, 0, 2, 0) \<noteq> 0 \<and>
   quat_to_rot_mtx (0, 0, 2, 0) = Inr ((- 1, 0, 0), (0, 1, 0), (0, 0, - 1)) \<and>
   quat_to_rot_mtx (0, 0, 2, 0) \<noteq> Inr zeros33"
  using quat_to_rot_mtx_degenerate [of 0 0 2 0]
  by (simp add: Let_def zeros33_def)

subsection \<open>The paths of \<^verbatim>\<open>rotation_to_quaternion\<close>\<close>

text \<open>
  On each path the argument of the square root is positive (at least \<open>1\<close> on
  the three paths that follow a diagonal entry, for any matrix whatever), so
  that no error value arises and the result has a closed form.
\<close>

lemma rtq_trace_pos:
  assumes "m00 + m11 + m22 > 0"
  shows "rotation_to_quaternion ((m00, m01, m02), (m10, m11, m12), (m20, m21, m22)) =
    (let s = sqrt (m00 + m11 + m22 + 1) in
     Inr (quat_neg (s * 0.5, (m21 - m12) * (0.5 / s), (m02 - m20) * (0.5 / s), (m10 - m01) * (0.5 / s))))"
proof -
  have "0 < m00 + m11 + m22 + 1" using assms by simp
  moreover from this have "sqrt (m00 + m11 + m22 + 1) \<noteq> 0" by simp
  ultimately show ?thesis
    by (simp add: assms Let_def float_sqrt_pos float_div_nz bind_result_Inr add.commute [of m01 m10]
        add.commute [of m02 m20] add.commute [of m12 m21] del: quat_neg.simps)
qed

lemma rtq_dom0:
  assumes "\<not> m00 + m11 + m22 > 0" "m00 \<ge> m11" "m00 \<ge> m22"
  shows "1 \<le> 1 + m00 - m11 - m22"
    and "rotation_to_quaternion ((m00, m01, m02), (m10, m11, m12), (m20, m21, m22)) =
    (let s = sqrt (1 + m00 - m11 - m22) in
     Inr (quat_neg ((m21 - m12) * (0.5 / s), 0.5 * s, (m10 + m01) * (0.5 / s), (m20 + m02) * (0.5 / s))))"
proof -
  show r: "1 \<le> 1 + m00 - m11 - m22" using assms by linarith
  then have "0 < 1 + m00 - m11 - m22" by linarith
  moreover from this have "sqrt (1 + m00 - m11 - m22) \<noteq> 0" by simp
  ultimately show "rotation_to_quaternion ((m00, m01, m02), (m10, m11, m12), (m20, m21, m22)) =
    (let s = sqrt (1 + m00 - m11 - m22) in
     Inr (quat_neg ((m21 - m12) * (0.5 / s), 0.5 * s, (m10 + m01) * (0.5 / s), (m20 + m02) * (0.5 / s))))"
    by (simp add: assms Let_def float_sqrt_pos float_div_nz bind_result_Inr add.commute [of m01 m10]
        add.commute [of m02 m20] add.commute [of m12 m21] del: quat_neg.simps)
qed

lemma rtq_dom1:
  assumes "\<not> m00 + m11 + m22 > 0" "\<not> (m00 \<ge> m11 \<and> m00 \<ge> m22)" "m11 > m22"
  shows "1 \<le> 1 + m11 - m00 - m22"
    and "rotation_to_quaternion ((m00, m01, m02), (m10, m11, m12), (m20, m21, m22)) =
    (let s = sqrt (1 + m11 - m00 - m22) in
     Inr (quat_neg ((m02 - m20) * (0.5 / s), (m10 + m01) * (0.5 / s), 0.5 * s, (m21 + m12) * (0.5 / s))))"
proof -
  show r: "1 \<le> 1 + m11 - m00 - m22" using assms by linarith
  then have "0 < 1 + m11 - m00 - m22" by linarith
  moreover from this have "sqrt (1 + m11 - m00 - m22) \<noteq> 0" by simp
  ultimately show "rotation_to_quaternion ((m00, m01, m02), (m10, m11, m12), (m20, m21, m22)) =
    (let s = sqrt (1 + m11 - m00 - m22) in
     Inr (quat_neg ((m02 - m20) * (0.5 / s), (m10 + m01) * (0.5 / s), 0.5 * s, (m21 + m12) * (0.5 / s))))"
    by (simp add: assms Let_def float_sqrt_pos float_div_nz bind_result_Inr add.commute [of m01 m10]
        add.commute [of m02 m20] add.commute [of m12 m21] del: quat_neg.simps)
qed

lemma rtq_dom2:
  assumes "\<not> m00 + m11 + m22 > 0" "\<not> (m00 \<ge> m11 \<and> m00 \<ge> m22)" "\<not> m11 > m22"
  shows "1 \<le> 1 + m22 - m00 - m11"
    and "rotation_to_quaternion ((m00, m01, m02), (m10, m11, m12), (m20, m21, m22)) =
    (let s = sqrt (1 + m22 - m00 - m11) in
     Inr (quat_neg ((m10 - m01) * (0.5 / s), (m20 + m02) * (0.5 / s), (m21 + m12) * (0.5 / s), 0.5 * s)))"
proof -
  show r: "1 \<le> 1 + m22 - m00 - m11" using assms by linarith
  then have "0 < 1 + m22 - m00 - m11" by linarith
  moreover from this have "sqrt (1 + m22 - m00 - m11) \<noteq> 0" by simp
  ultimately show "rotation_to_quaternion ((m00, m01, m02), (m10, m11, m12), (m20, m21, m22)) =
    (let s = sqrt (1 + m22 - m00 - m11) in
     Inr (quat_neg ((m10 - m01) * (0.5 / s), (m20 + m02) * (0.5 / s), (m21 + m12) * (0.5 / s), 0.5 * s)))"
    by (simp add: assms Let_def float_sqrt_pos float_div_nz bind_result_Inr add.commute [of m01 m10]
        add.commute [of m02 m20] add.commute [of m12 m21] del: quat_neg.simps)
qed

subsection \<open>Rotation matrices\<close>

text \<open>
  Each column of a rotation matrix is the cross product of the other two,
  hence the rows are orthonormal as well, and the sums and differences of the
  entries off the diagonal multiply as the products of quaternion components
  do.
\<close>

lemma sum3_squares_zero:
  fixes a b c :: real
  assumes "a * a + b * b + c * c = 0"
  shows "a = 0" "b = 0" "c = 0"
proof -
  have "0 \<le> a * a" "0 \<le> b * b" "0 \<le> c * c" by simp_all
  with assms have "a * a = 0 \<and> b * b = 0 \<and> c * c = 0" by linarith
  then show "a = 0" "b = 0" "c = 0" by simp_all
qed

lemma cross_unit:
  fixes a0 a1 a2 b0 b1 b2 c0 c1 c2 :: real
  assumes "a0 * a0 + a1 * a1 + a2 * a2 = 1"
      and "b0 * b0 + b1 * b1 + b2 * b2 = 1"
      and "c0 * c0 + c1 * c1 + c2 * c2 = 1"
      and "b0 * c0 + b1 * c1 + b2 * c2 = 0"
      and "a0 * (b1 * c2 - b2 * c1) + a1 * (b2 * c0 - b0 * c2) + a2 * (b0 * c1 - b1 * c0) = 1"
  shows "a0 = b1 * c2 - b2 * c1" "a1 = b2 * c0 - b0 * c2" "a2 = b0 * c1 - b1 * c0"
proof -
  let ?u0 = "b1 * c2 - b2 * c1" and ?u1 = "b2 * c0 - b0 * c2" and ?u2 = "b0 * c1 - b1 * c0"
  have lagrange: "?u0 * ?u0 + ?u1 * ?u1 + ?u2 * ?u2 =
      (b0 * b0 + b1 * b1 + b2 * b2) * (c0 * c0 + c1 * c1 + c2 * c2)
      - (b0 * c0 + b1 * c1 + b2 * c2) * (b0 * c0 + b1 * c1 + b2 * c2)"
    by (simp add: algebra_simps)
  have "(a0 - ?u0) * (a0 - ?u0) + (a1 - ?u1) * (a1 - ?u1) + (a2 - ?u2) * (a2 - ?u2) =
      (a0 * a0 + a1 * a1 + a2 * a2) - 2 * (a0 * ?u0 + a1 * ?u1 + a2 * ?u2)
      + (?u0 * ?u0 + ?u1 * ?u1 + ?u2 * ?u2)"
    by (simp add: algebra_simps)
  also have "\<dots> = 0"
    unfolding lagrange assms by simp
  finally have z: "(a0 - ?u0) * (a0 - ?u0) + (a1 - ?u1) * (a1 - ?u1) + (a2 - ?u2) * (a2 - ?u2) = 0" .
  from sum3_squares_zero [OF z]
  show "a0 = ?u0" "a1 = ?u1" "a2 = ?u2" by simp_all
qed


lemma rotation_cofactors:
  assumes "is_rotation ((m00, m01, m02), (m10, m11, m12), (m20, m21, m22))"
  shows "m00 = m11 * m22 - m21 * m12" "m10 = m21 * m02 - m01 * m22" "m20 = m01 * m12 - m11 * m02"
    and "m01 = m12 * m20 - m22 * m10" "m11 = m22 * m00 - m02 * m20" "m21 = m02 * m10 - m12 * m00"
    and "m02 = m10 * m21 - m20 * m11" "m12 = m20 * m01 - m00 * m21" "m22 = m00 * m11 - m10 * m01"
proof -
  from assms have
    c00: "m00 * m00 + m10 * m10 + m20 * m20 = 1" and
    c11: "m01 * m01 + m11 * m11 + m21 * m21 = 1" and
    c22: "m02 * m02 + m12 * m12 + m22 * m22 = 1" and
    c01: "m00 * m01 + m10 * m11 + m20 * m21 = 0" and
    c02: "m00 * m02 + m10 * m12 + m20 * m22 = 0" and
    c12: "m01 * m02 + m11 * m12 + m21 * m22 = 0" and
    det: "m00 * (m11 * m22 - m12 * m21) - m01 * (m10 * m22 - m12 * m20)
            + m02 * (m10 * m21 - m11 * m20) = 1"
    by simp_all
  have d0: "m00 * (m11 * m22 - m21 * m12) + m10 * (m21 * m02 - m01 * m22)
            + m20 * (m01 * m12 - m11 * m02) = 1"
    using det by (simp add: algebra_simps)
  have d1: "m01 * (m12 * m20 - m22 * m10) + m11 * (m22 * m00 - m02 * m20)
            + m21 * (m02 * m10 - m12 * m00) = 1"
    using det by (simp add: algebra_simps)
  have d2: "m02 * (m10 * m21 - m20 * m11) + m12 * (m20 * m01 - m00 * m21)
            + m22 * (m00 * m11 - m10 * m01) = 1"
    using det by (simp add: algebra_simps)
  have c20: "m02 * m00 + m12 * m10 + m22 * m20 = 0"
    using c02 by (simp add: mult.commute)
  show "m00 = m11 * m22 - m21 * m12" "m10 = m21 * m02 - m01 * m22" "m20 = m01 * m12 - m11 * m02"
    using cross_unit [OF c00 c11 c22 c12 d0] by simp_all
  show "m01 = m12 * m20 - m22 * m10" "m11 = m22 * m00 - m02 * m20" "m21 = m02 * m10 - m12 * m00"
    using cross_unit [OF c11 c22 c00 c20 d1] by simp_all
  show "m02 = m10 * m21 - m20 * m11" "m12 = m20 * m01 - m00 * m21" "m22 = m00 * m11 - m10 * m01"
    using cross_unit [OF c22 c00 c11 c01 d2] by simp_all
qed


lemma rotation_rows:
  assumes "is_rotation ((m00, m01, m02), (m10, m11, m12), (m20, m21, m22))"
  shows "m00 * m00 + m01 * m01 + m02 * m02 = 1"
    and "m10 * m10 + m11 * m11 + m12 * m12 = 1"
    and "m20 * m20 + m21 * m21 + m22 * m22 = 1"
    and "m00 * m10 + m01 * m11 + m02 * m12 = 0"
    and "m00 * m20 + m01 * m21 + m02 * m22 = 0"
    and "m10 * m20 + m11 * m21 + m12 * m22 = 0"
proof -
  note cof = rotation_cofactors [OF assms]
  from assms have
    det: "m00 * (m11 * m22 - m12 * m21) - m01 * (m10 * m22 - m12 * m20)
            + m02 * (m10 * m21 - m11 * m20) = 1"
    by simp
  have "m00 * m00 + m01 * m01 + m02 * m02 =
        m00 * (m11 * m22 - m21 * m12) + m01 * (m12 * m20 - m22 * m10) + m02 * (m10 * m21 - m20 * m11)"
    using cof(1,4,7) by simp
  also have "\<dots> = 1" using det by (simp add: algebra_simps)
  finally show "m00 * m00 + m01 * m01 + m02 * m02 = 1" .
  have "m10 * m10 + m11 * m11 + m12 * m12 =
        m10 * (m21 * m02 - m01 * m22) + m11 * (m22 * m00 - m02 * m20) + m12 * (m20 * m01 - m00 * m21)"
    using cof(2,5,8) by simp
  also have "\<dots> = 1" using det by (simp add: algebra_simps)
  finally show "m10 * m10 + m11 * m11 + m12 * m12 = 1" .
  have "m20 * m20 + m21 * m21 + m22 * m22 =
        m20 * (m01 * m12 - m11 * m02) + m21 * (m02 * m10 - m12 * m00) + m22 * (m00 * m11 - m10 * m01)"
    using cof(3,6,9) by simp
  also have "\<dots> = 1" using det by (simp add: algebra_simps)
  finally show "m20 * m20 + m21 * m21 + m22 * m22 = 1" .
  have "m00 * m10 + m01 * m11 + m02 * m12 =
        m00 * (m21 * m02 - m01 * m22) + m01 * (m22 * m00 - m02 * m20) + m02 * (m20 * m01 - m00 * m21)"
    using cof(2,5,8) by simp
  also have "\<dots> = 0" by (simp add: algebra_simps)
  finally show "m00 * m10 + m01 * m11 + m02 * m12 = 0" .
  have "m00 * m20 + m01 * m21 + m02 * m22 =
        m00 * (m01 * m12 - m11 * m02) + m01 * (m02 * m10 - m12 * m00) + m02 * (m00 * m11 - m10 * m01)"
    using cof(3,6,9) by simp
  also have "\<dots> = 0" by (simp add: algebra_simps)
  finally show "m00 * m20 + m01 * m21 + m02 * m22 = 0" .
  have "m10 * m20 + m11 * m21 + m12 * m22 =
        m10 * (m01 * m12 - m11 * m02) + m11 * (m02 * m10 - m12 * m00) + m12 * (m00 * m11 - m10 * m01)"
    using cof(3,6,9) by simp
  also have "\<dots> = 0" by (simp add: algebra_simps)
  finally show "m10 * m20 + m11 * m21 + m12 * m22 = 0" .
qed

lemma rotation_products:
  assumes rot: "is_rotation ((m00, m01, m02), (m10, m11, m12), (m20, m21, m22))"
  shows "(1 + m00 + m11 + m22) * (1 + m00 - m11 - m22) = (m21 - m12) * (m21 - m12)"
    and "(1 + m00 + m11 + m22) * (1 + m11 - m00 - m22) = (m02 - m20) * (m02 - m20)"
    and "(1 + m00 + m11 + m22) * (1 + m22 - m00 - m11) = (m10 - m01) * (m10 - m01)"
    and "(m10 + m01) * (m10 + m01) = (1 + m00 - m11 - m22) * (1 + m11 - m00 - m22)"
    and "(m20 + m02) * (m20 + m02) = (1 + m00 - m11 - m22) * (1 + m22 - m00 - m11)"
    and "(m10 + m01) * (m20 + m02) = (1 + m00 - m11 - m22) * (m21 + m12)"
    and "(m10 + m01) * (m21 - m12) = (1 + m00 - m11 - m22) * (m02 - m20)"
    and "(m20 + m02) * (m21 - m12) = (1 + m00 - m11 - m22) * (m10 - m01)"
proof -
  note cof = rotation_cofactors [OF rot]
  note row = rotation_rows [OF rot]
  from rot have
    c00: "m00 * m00 + m10 * m10 + m20 * m20 = 1" and
    c11: "m01 * m01 + m11 * m11 + m21 * m21 = 1" and
    c22: "m02 * m02 + m12 * m12 + m22 * m22 = 1" and
    c01: "m00 * m01 + m10 * m11 + m20 * m21 = 0" and
    c02: "m00 * m02 + m10 * m12 + m20 * m22 = 0" and
    c12: "m01 * m02 + m11 * m12 + m21 * m22 = 0"
    by simp_all
  show "(1 + m00 + m11 + m22) * (1 + m00 - m11 - m22) = (m21 - m12) * (m21 - m12)"
    using cof(1) c11 c22 row(1) by algebra
  show "(1 + m00 + m11 + m22) * (1 + m11 - m00 - m22) = (m02 - m20) * (m02 - m20)"
    using cof(5) c00 c22 row(2) by algebra
  show "(1 + m00 + m11 + m22) * (1 + m22 - m00 - m11) = (m10 - m01) * (m10 - m01)"
    using cof(9) c00 c11 row(3) by algebra
  show "(m10 + m01) * (m10 + m01) = (1 + m00 - m11 - m22) * (1 + m11 - m00 - m22)"
    using cof(9) c00 c11 row(3) by algebra
  show "(m20 + m02) * (m20 + m02) = (1 + m00 - m11 - m22) * (1 + m22 - m00 - m11)"
    using cof(5) c00 c22 row(2) by algebra
  show "(m10 + m01) * (m20 + m02) = (1 + m00 - m11 - m22) * (m21 + m12)"
    using cof(6) cof(8) row(6) c12 by algebra
  show "(m10 + m01) * (m21 - m12) = (1 + m00 - m11 - m22) * (m02 - m20)"
    using cof(7) cof(3) c02 row(5) by algebra
  show "(m20 + m02) * (m21 - m12) = (1 + m00 - m11 - m22) * (m10 - m01)"
    using cof(2) cof(4) c01 row(4) by algebra
qed

lemma rotation_trace_ge:
  assumes rot: "is_rotation ((m00, m01, m02), (m10, m11, m12), (m20, m21, m22))"
  shows "- 1 \<le> m00 + m11 + m22"
proof (rule ccontr)
  assume "\<not> - 1 \<le> m00 + m11 + m22"
  then have t: "1 + m00 + m11 + m22 < 0" by simp
  note p = rotation_products [OF rot]
  have "0 \<le> (1 + m00 + m11 + m22) * (1 + m00 - m11 - m22)" unfolding p(1) by simp
  with t have a: "1 + m00 - m11 - m22 \<le> 0" by (simp add: zero_le_mult_iff)
  have "0 \<le> (1 + m00 + m11 + m22) * (1 + m11 - m00 - m22)" unfolding p(2) by simp
  with t have b: "1 + m11 - m00 - m22 \<le> 0" by (simp add: zero_le_mult_iff)
  have "0 \<le> (1 + m00 + m11 + m22) * (1 + m22 - m00 - m11)" unfolding p(3) by simp
  with t have c: "1 + m22 - m00 - m11 \<le> 0" by (simp add: zero_le_mult_iff)
  from t a b c show False by linarith
qed

text \<open>
  C4. For a rotation matrix the trace is at least \<open>-1\<close>, and on each of the
  four paths of \<^verbatim>\<open>rotation_to_quaternion\<close> the argument of the square root is
  strictly positive and so is the root \<open>s\<close>, the only divisor; the conversion
  returns a quaternion, with no division by zero.
\<close>

theorem rotation_to_quaternion_safe:
  assumes rot: "is_rotation ((m00, m01, m02), (m10, m11, m12), (m20, m21, m22))"
  shows "- 1 \<le> m00 + m11 + m22 \<and>
    (m00 + m11 + m22 > 0 \<longrightarrow>
       0 < m00 + m11 + m22 + 1 \<and> 0 < sqrt (m00 + m11 + m22 + 1)) \<and>
    (\<not> m00 + m11 + m22 > 0 \<and> m00 \<ge> m11 \<and> m00 \<ge> m22 \<longrightarrow>
       0 < 1 + m00 - m11 - m22 \<and> 0 < sqrt (1 + m00 - m11 - m22)) \<and>
    (\<not> m00 + m11 + m22 > 0 \<and> \<not> (m00 \<ge> m11 \<and> m00 \<ge> m22) \<and> m11 > m22 \<longrightarrow>
       0 < 1 + m11 - m00 - m22 \<and> 0 < sqrt (1 + m11 - m00 - m22)) \<and>
    (\<not> m00 + m11 + m22 > 0 \<and> \<not> (m00 \<ge> m11 \<and> m00 \<ge> m22) \<and> \<not> m11 > m22 \<longrightarrow>
       0 < 1 + m22 - m00 - m11 \<and> 0 < sqrt (1 + m22 - m00 - m11)) \<and>
    (\<exists>q. rotation_to_quaternion ((m00, m01, m02), (m10, m11, m12), (m20, m21, m22)) = Inr q)"
proof (intro conjI impI)
  show "- 1 \<le> m00 + m11 + m22" by (rule rotation_trace_ge [OF rot])
next
  assume "m00 + m11 + m22 > 0"
  then show "0 < m00 + m11 + m22 + 1" by simp
  then show "0 < sqrt (m00 + m11 + m22 + 1)" by simp
next
  assume "\<not> m00 + m11 + m22 > 0 \<and> m00 \<ge> m11 \<and> m00 \<ge> m22"
  then show "0 < 1 + m00 - m11 - m22" by linarith
  then show "0 < sqrt (1 + m00 - m11 - m22)" by simp
next
  assume "\<not> m00 + m11 + m22 > 0 \<and> \<not> (m00 \<ge> m11 \<and> m00 \<ge> m22) \<and> m11 > m22"
  then show "0 < 1 + m11 - m00 - m22" by linarith
  then show "0 < sqrt (1 + m11 - m00 - m22)" by simp
next
  assume "\<not> m00 + m11 + m22 > 0 \<and> \<not> (m00 \<ge> m11 \<and> m00 \<ge> m22) \<and> \<not> m11 > m22"
  then show "0 < 1 + m22 - m00 - m11" by linarith
  then show "0 < sqrt (1 + m22 - m00 - m11)" by simp
next
  show "\<exists>q. rotation_to_quaternion ((m00, m01, m02), (m10, m11, m12), (m20, m21, m22)) = Inr q"
  proof (cases "m00 + m11 + m22 > 0")
    case True
    show ?thesis unfolding rtq_trace_pos [OF True] Let_def by blast
  next
    case tr: False
    show ?thesis
    proof (cases "m00 \<ge> m11 \<and> m00 \<ge> m22")
      case True
      then have ge: "m00 \<ge> m11" "m00 \<ge> m22" by simp_all
      show ?thesis unfolding rtq_dom0(2) [OF tr ge] Let_def by blast
    next
      case nd0: False
      show ?thesis
      proof (cases "m11 > m22")
        case True
        show ?thesis unfolding rtq_dom1(2) [OF tr nd0 True] Let_def by blast
      next
        case False
        show ?thesis unfolding rtq_dom2(2) [OF tr nd0 False] Let_def by blast
      qed
    qed
  qed
qed

theorem rotation_to_quaternion_safe_witness:
  "is_rotation ((1, 0, 0), (0, - 1, 0), (0, 0, - 1)) \<and>
   \<not> (1 + (- 1) + (- 1) > (0::real)) \<and> (1::real) \<ge> - 1 \<and>
   (0::real) < 1 + 1 - (- 1) - (- 1) \<and> (0::real) < sqrt (1 + 1 - (- 1) - (- 1)) \<and>
   (\<exists>q. rotation_to_quaternion ((1, 0, 0), (0, - 1, 0), (0, 0, - 1)) = Inr q)"
proof -
  have h: "is_rotation ((1, 0, 0), (0, - 1, 0), (0, 0, - 1))" by simp
  from rotation_to_quaternion_safe [OF h] show ?thesis using h by simp
qed

subsection \<open>The two conversions compared\<close>

lemma float_to_int_fraction: "0 \<le> a \<Longrightarrow> a < 1 \<Longrightarrow> float_to_int a = 0"
  by (simp add: float_to_int_def floor_eq_iff)

lemma float_to_int_zero: "float_to_int 0 = 0"
  by (simp add: float_to_int_def)

lemma sqrt2_bounds: "1 < sqrt 2" "sqrt 2 < 2"
proof -
  show "1 < sqrt 2" by simp
  show "sqrt 2 < 2" by (rule real_less_lsqrt) simp_all
qed

lemma inverse_sqrt2: "1 / sqrt 2 = sqrt 2 / 2"
  by (simp add: field_simps)

lemma half_turn_rotation_to_quaternion:
  "rotation_to_quaternion ((0, 1, 0), (1, 0, 0), (0, 0, - 1)) =
     Inr (0, - (sqrt 2 / 2), - (sqrt 2 / 2), 0)"
  using inverse_sqrt2 by (simp add: bind_result_def float_sqrt_def float_div_def)

lemma half_turn_other_rot_to_quat:
  "other_rot_to_quat ((0, 1, 0), (1, 0, 0), (0, 0, - 1)) = Inr (0, 0, 0, 0)"
proof -
  have a: "float_to_int (1 / sqrt 2) = 0"
    using sqrt2_bounds by (intro float_to_int_fraction) (simp_all add: field_simps)
  have b: "float_to_int (sqrt 2 / 2) = 0"
    using sqrt2_bounds by (intro float_to_int_fraction) simp_all
  show ?thesis
    by (simp add: bind_result_def float_sqrt_def float_div_def float_to_int_zero a b)
qed

text \<open>
  C1. The half turn about the diagonal of the front and left axes is a
  rotation matrix. \<^verbatim>\<open>rotation_to_quaternion\<close> returns
  \<open>(0, -\<surd>2/2, -\<surd>2/2, 0)\<close> on it, while \<^verbatim>\<open>other_rot_to_quat\<close> stores
  \<open>0.707...\<close> twice into its list of integers and returns \<open>[0, 0, 0, 0]\<close>, which
  is neither that quaternion nor its negation.
\<close>

theorem conversions_differ_at_half_turn:
  "is_rotation ((0, 1, 0), (1, 0, 0), (0, 0, - 1)) \<and>
   rotation_to_quaternion ((0, 1, 0), (1, 0, 0), (0, 0, - 1)) =
     Inr (0, - (sqrt 2 / 2), - (sqrt 2 / 2), 0) \<and>
   other_rot_to_quat ((0, 1, 0), (1, 0, 0), (0, 0, - 1)) = Inr (0, 0, 0, 0) \<and>
   quat_of_ints (0, 0, 0, 0) \<noteq> (0, - (sqrt 2 / 2), - (sqrt 2 / 2), 0) \<and>
   quat_of_ints (0, 0, 0, 0) \<noteq> quat_neg (0, - (sqrt 2 / 2), - (sqrt 2 / 2), 0)"
  unfolding half_turn_rotation_to_quaternion half_turn_other_rot_to_quat
  by simp

text \<open>
  Where every component is an integer the truncation changes nothing: on the
  identity matrix the list is \<open>[1, 0, 0, 0]\<close>.
\<close>

lemma identity_other_rot_to_quat:
  "other_rot_to_quat ((1, 0, 0), (0, 1, 0), (0, 0, 1)) = Inr (1, 0, 0, 0)"
  by (simp add: bind_result_def float_sqrt_def float_div_def float_to_int_def)

subsection \<open>Round trip\<close>

lemma sqrt_four_sq: "sqrt (4 * p * p) = 2 * \<bar>p\<bar>"
proof -
  have "4 * p * p = (2 * p) * (2 * p)" by simp
  then have "sqrt (4 * p * p) = \<bar>2 * p\<bar>" by (simp only: real_sqrt_abs2)
  then show ?thesis by (simp add: abs_mult)
qed

lemma pivot_pos:
  fixes p c :: real
  assumes "0 < p"
  shows "0.5 * sqrt (4 * p * p) = p" "sqrt (4 * p * p) * 0.5 = p"
    and "4 * c * p * (0.5 / sqrt (4 * p * p)) = c"
    and "4 * p * c * (0.5 / sqrt (4 * p * p)) = c"
  using assms unfolding sqrt_four_sq by (simp_all add: field_simps)

lemma pivot_neg:
  fixes p c :: real
  assumes "p < 0"
  shows "0.5 * sqrt (4 * p * p) = - p" "sqrt (4 * p * p) * 0.5 = - p"
    and "4 * c * p * (0.5 / sqrt (4 * p * p)) = - c"
    and "4 * p * c * (0.5 / sqrt (4 * p * p)) = - c"
  using assms unfolding sqrt_four_sq by (simp_all add: field_simps)

lemma quat_to_rot_mtx_unit:
  assumes "w * w + x * x + y * y + z * z = 1"
  shows "quat_to_rot_mtx (w, x, y, z) =
     Inr ((1 - 2 * (y * y + z * z), 2 * (x * y - z * w), 2 * (x * z + y * w)),
          (2 * (x * y + z * w), 1 - 2 * (x * x + z * z), 2 * (y * z - x * w)),
          (2 * (x * z - y * w), 2 * (y * z + x * w), 1 - 2 * (x * x + y * y)))"
  using assms by (simp add: Let_def bind_result_def float_div_def)

lemma rtq_of_quaternion_entries:
  fixes w x y z :: real
  assumes t: "m00 + m11 + m22 + 1 = 4 * w * w"
    and a: "1 + m00 - m11 - m22 = 4 * x * x"
    and b: "1 + m11 - m00 - m22 = 4 * y * y"
    and c: "1 + m22 - m00 - m11 = 4 * z * z"
    and e: "m21 - m12 = 4 * x * w" "m02 - m20 = 4 * y * w" "m10 - m01 = 4 * z * w"
           "m10 + m01 = 4 * x * y" "m20 + m02 = 4 * x * z" "m21 + m12 = 4 * y * z"
  shows "rotation_to_quaternion ((m00, m01, m02), (m10, m11, m12), (m20, m21, m22)) = Inr (w, x, y, z) \<or>
         rotation_to_quaternion ((m00, m01, m02), (m10, m11, m12), (m20, m21, m22)) = Inr (quat_neg (w, x, y, z))"
proof (cases "m00 + m11 + m22 > 0")
  case True
  then have "w \<noteq> 0" using t by auto
  then consider "0 < w" | "w < 0" by linarith
  then show ?thesis
  proof cases
    case 1
    show ?thesis unfolding rtq_trace_pos [OF True] Let_def t e pivot_pos [OF 1] by simp
  next
    case 2
    show ?thesis unfolding rtq_trace_pos [OF True] Let_def t e pivot_neg [OF 2] by simp
  qed
next
  case tr: False
  show ?thesis
  proof (cases "m00 \<ge> m11 \<and> m00 \<ge> m22")
    case True
    then have ge: "m00 \<ge> m11" "m00 \<ge> m22" by simp_all
    from rtq_dom0(1) [OF tr ge] a have "x \<noteq> 0" by auto
    then consider "0 < x" | "x < 0" by linarith
    then show ?thesis
    proof cases
      case 1
      show ?thesis unfolding rtq_dom0(2) [OF tr ge] Let_def a e pivot_pos [OF 1] by simp
    next
      case 2
      show ?thesis unfolding rtq_dom0(2) [OF tr ge] Let_def a e pivot_neg [OF 2] by simp
    qed
  next
    case nd0: False
    show ?thesis
    proof (cases "m11 > m22")
      case True
      from rtq_dom1(1) [OF tr nd0 True] b have "y \<noteq> 0" by auto
      then consider "0 < y" | "y < 0" by linarith
      then show ?thesis
      proof cases
        case 1
        show ?thesis unfolding rtq_dom1(2) [OF tr nd0 True] Let_def b e pivot_pos [OF 1] by simp
      next
        case 2
        show ?thesis unfolding rtq_dom1(2) [OF tr nd0 True] Let_def b e pivot_neg [OF 2] by simp
      qed
    next
      case False
      from rtq_dom2(1) [OF tr nd0 False] c have "z \<noteq> 0" by auto
      then consider "0 < z" | "z < 0" by linarith
      then show ?thesis
      proof cases
        case 1
        show ?thesis unfolding rtq_dom2(2) [OF tr nd0 False] Let_def c e pivot_pos [OF 1] by simp
      next
        case 2
        show ?thesis unfolding rtq_dom2(2) [OF tr nd0 False] Let_def c e pivot_neg [OF 2] by simp
      qed
    qed
  qed
qed

text \<open>
  For every unit quaternion \<open>q\<close>, \<^verbatim>\<open>quat_to_rot_mtx(q)\<close> is a matrix on which
  \<^verbatim>\<open>rotation_to_quaternion\<close> returns \<open>q\<close> or \<open>-q\<close>.
\<close>

lemma rotation_to_quaternion_round_trip:
  assumes unit: "quat_norm q = 1"
  shows "\<exists>m. quat_to_rot_mtx q = Inr m \<and>
           (rotation_to_quaternion m = Inr q \<or> rotation_to_quaternion m = Inr (quat_neg q))"
proof -
  obtain w x y z where q: "q = (w, x, y, z)" by (metis prod_cases4)
  from unit have u: "w * w + x * x + y * y + z * z = 1"
    unfolding q by (simp add: quat_norm_def)
  let ?m00 = "1 - 2 * (y * y + z * z)" and ?m01 = "2 * (x * y - z * w)" and ?m02 = "2 * (x * z + y * w)"
  let ?m10 = "2 * (x * y + z * w)" and ?m11 = "1 - 2 * (x * x + z * z)" and ?m12 = "2 * (y * z - x * w)"
  let ?m20 = "2 * (x * z - y * w)" and ?m21 = "2 * (y * z + x * w)" and ?m22 = "1 - 2 * (x * x + y * y)"
  have w2: "w * w = 1 - x * x - y * y - z * z" using u by linarith
  have t: "?m00 + ?m11 + ?m22 + 1 = 4 * w * w" using w2 by (simp add: algebra_simps)
  have a: "1 + ?m00 - ?m11 - ?m22 = 4 * x * x" by (simp add: algebra_simps)
  have b: "1 + ?m11 - ?m00 - ?m22 = 4 * y * y" by (simp add: algebra_simps)
  have c: "1 + ?m22 - ?m00 - ?m11 = 4 * z * z" by (simp add: algebra_simps)
  have e: "?m21 - ?m12 = 4 * x * w" "?m02 - ?m20 = 4 * y * w" "?m10 - ?m01 = 4 * z * w"
          "?m10 + ?m01 = 4 * x * y" "?m20 + ?m02 = 4 * x * z" "?m21 + ?m12 = 4 * y * z"
    by (simp_all add: algebra_simps)
  show ?thesis
    unfolding q quat_to_rot_mtx_unit [OF u]
    using rtq_of_quaternion_entries [OF t a b c e]
    by blast
qed

lemma sqrt_64_25: "sqrt (64 / 25) = 8 / 5"
  by (rule real_sqrt_unique) (simp_all add: power2_eq_square)

lemma unit_quat_to_rot_mtx:
  "quat_to_rot_mtx (0, 3 / 5, 4 / 5, 0) =
     Inr ((- (7 / 25), 24 / 25, 0), (24 / 25, 7 / 25, 0), (0, 0, - 1))"
  by (simp add: Let_def bind_result_def float_div_def)

lemma unit_rotation_to_quaternion:
  "rotation_to_quaternion ((- (7 / 25), 24 / 25, 0), (24 / 25, 7 / 25, 0), (0, 0, - 1)) =
     Inr (quat_neg (0, 3 / 5, 4 / 5, 0))"
  by (simp add: bind_result_def float_sqrt_def float_div_def sqrt_64_25)

lemma unit_other_rot_to_quat:
  "other_rot_to_quat ((- (7 / 25), 24 / 25, 0), (24 / 25, 7 / 25, 0), (0, 0, - 1)) =
     Inr (0, 0, 0, 0)"
proof -
  have a: "float_to_int (3 / 5) = 0" by (rule float_to_int_fraction) simp_all
  have b: "float_to_int (4 / 5) = 0" by (rule float_to_int_fraction) simp_all
  show ?thesis
    by (simp add: bind_result_def float_sqrt_def float_div_def sqrt_64_25 float_to_int_zero a b)
qed

text \<open>
  C3. At the unit quaternion \<open>q = (0, 3/5, 4/5, 0)\<close> the matrix
  \<^verbatim>\<open>quat_to_rot_mtx(q)\<close> is computed and \<^verbatim>\<open>rotation_to_quaternion\<close> returns
  \<open>-q\<close> on it, but \<^verbatim>\<open>other_rot_to_quat\<close> truncates \<open>3/5\<close> and \<open>4/5\<close> and
  returns \<open>[0, 0, 0, 0]\<close>, which is neither \<open>q\<close> nor \<open>-q\<close>.
\<close>

theorem round_trip_other_truncates:
  "quat_norm (0, 3 / 5, 4 / 5, 0) = 1 \<and>
   quat_to_rot_mtx (0, 3 / 5, 4 / 5, 0) =
     Inr ((- (7 / 25), 24 / 25, 0), (24 / 25, 7 / 25, 0), (0, 0, - 1)) \<and>
   rotation_to_quaternion ((- (7 / 25), 24 / 25, 0), (24 / 25, 7 / 25, 0), (0, 0, - 1)) =
     Inr (quat_neg (0, 3 / 5, 4 / 5, 0)) \<and>
   other_rot_to_quat ((- (7 / 25), 24 / 25, 0), (24 / 25, 7 / 25, 0), (0, 0, - 1)) =
     Inr (0, 0, 0, 0) \<and>
   quat_of_ints (0, 0, 0, 0) \<noteq> (0, 3 / 5, 4 / 5, 0) \<and>
   quat_of_ints (0, 0, 0, 0) \<noteq> quat_neg (0, 3 / 5, 4 / 5, 0)"
proof -
  have "(0::real) * 0 + 3 / 5 * (3 / 5) + 4 / 5 * (4 / 5) + 0 * 0 = 1" by simp
  then have h: "quat_norm (0, 3 / 5, 4 / 5, 0) = 1"
    by (simp only: quat_norm_def quat_dot.simps real_sqrt_one)
  show ?thesis
    unfolding unit_quat_to_rot_mtx unit_rotation_to_quaternion unit_other_rot_to_quat
    using h by simp
qed

end
